theory Spec2Isabelle
  imports Main
begin

section \<open>JavaScript values the component handles\<close>

text \<open>
  The component \<^verbatim>\<open>src/components/CreditCardParser.tsx\<close> works on JavaScript strings,
  on the values \<^verbatim>\<open>JSON.parse\<close> returns and on thrown errors.

  A JavaScript string is modelled by a \<^typ>\<open>string\<close>: the list of bytes that writes each
  UTF-16 code unit the way UTF-8 writes a code point (one byte below 128, two or three
  above). ASCII characters are themselves, no byte of a longer sequence is an ASCII byte,
  and every code unit is at least one byte, so searching for an ASCII character, testing
  for emptiness and matching \<^verbatim>\<open>[\s\S]+\<close> mean the same on both sides.
\<close>

datatype json =
    JNull
  | JBool bool
  | JNumber string
  | JString string
  | JArray "json list"
  | JObject "(string \<times> json) list"

text \<open>
  \<open>JNumber\<close> keeps the numeral as it is written in the text; no claim reads its value.
  \<open>JObject\<close> keeps the members in the order of the text; \<^verbatim>\<open>JSON.parse\<close> lets a later
  member with the same key replace an earlier one, which is how \<open>get_field\<close> reads it.
\<close>

definition get_field :: "json \<Rightarrow> string \<Rightarrow> json option" where
  "get_field v k = (case v of JObject kvs \<Rightarrow> map_of (rev kvs) k | _ \<Rightarrow> None)"

text \<open>A thrown value as the \<^verbatim>\<open>catch\<close> clause reads it: \<^verbatim>\<open>err.message\<close>, or undefined.\<close>

datatype thrown = Thrown (message: "string option")

abbreviation newError :: "string \<Rightarrow> thrown" where
  "newError m \<equiv> Thrown (Some m)"

section \<open>\<^verbatim>\<open>JSON.parse\<close>\<close>

text \<open>
  \<^verbatim>\<open>JSON.parse\<close> is the built-in of ECMA-262 (grammar of ECMA-404). It is modelled in two
  passes over the text: \<open>lex\<close> splits it into tokens and \<open>run\<close> is the push-down
  automaton of the grammar. A text is accepted only if every character of it belongs to
  the one value it writes.
\<close>

datatype token =
    TLBrace | TRBrace | TLBrack | TRBrack | TColon | TComma
  | TStr string | TNum string | TTrue | TFalse | TNull

definition is_ws :: "char \<Rightarrow> bool" where
  "is_ws c = (c = CHR '' '' \<or> c = CHR 0x09 \<or> c = CHR 0x0A \<or> c = CHR 0x0D)"

definition is_digit :: "char \<Rightarrow> bool" where
  "is_digit c = (c \<in> set ''0123456789'')"

definition is_word_char :: "char \<Rightarrow> bool" where
  "is_word_char c =
     (c \<in> set ''0123456789+-.abcdefghijklmnopqrstuvwxyzABCDEFGHIJKLMNOPQRSTUVWXYZ'')"

text \<open>The exponent, the fraction and the whole of a JSON number.\<close>

definition is_exponent :: "string \<Rightarrow> bool" where
  "is_exponent r =
     (case r of
        [] \<Rightarrow> True
      | e # r' \<Rightarrow>
          (e = CHR ''e'' \<or> e = CHR ''E'') \<and>
          (let ds = (case r' of
                       [] \<Rightarrow> []
                     | s # x \<Rightarrow> if s = CHR ''+'' \<or> s = CHR ''-'' then x else r')
           in ds \<noteq> [] \<and> list_all is_digit ds))"

definition is_fraction :: "string \<Rightarrow> bool" where
  "is_fraction r =
     (case r of
        [] \<Rightarrow> True
      | p # r' \<Rightarrow>
          if p = CHR ''.''
          then takeWhile is_digit r' \<noteq> [] \<and> is_exponent (dropWhile is_digit r')
          else is_exponent r)"

definition is_number :: "string \<Rightarrow> bool" where
  "is_number w =
     (let u = (case w of [] \<Rightarrow> [] | s # x \<Rightarrow> if s = CHR ''-'' then x else w)
      in case u of
           [] \<Rightarrow> False
         | d # r \<Rightarrow>
             if d = CHR ''0'' then is_fraction r
             else is_digit d \<and> is_fraction (dropWhile is_digit r))"

definition word_token :: "string \<Rightarrow> token option" where
  "word_token w =
     (if w = ''true'' then Some TTrue
      else if w = ''false'' then Some TFalse
      else if w = ''null'' then Some TNull
      else if is_number w then Some (TNum w)
      else None)"

definition hex_digit :: "char \<Rightarrow> nat option" where
  "hex_digit c =
     map_of (zip ''0123456789abcdefABCDEF''
                 [0, 1, 2, 3, 4, 5, 6, 7, 8, 9, 10, 11, 12, 13, 14, 15, 10, 11, 12, 13, 14, 15]) c"

definition code_unit_bytes :: "nat \<Rightarrow> string" where
  "code_unit_bytes n =
     (if n < 128 then [char_of n]
      else if n < 2048 then [char_of (192 + n div 64), char_of (128 + n mod 64)]
      else [char_of (224 + n div 4096), char_of (128 + n div 64 mod 64),
            char_of (128 + n mod 64)])"

definition unicode_escape :: "char \<Rightarrow> char \<Rightarrow> char \<Rightarrow> char \<Rightarrow> string option" where
  "unicode_escape a b c d =
     (case (hex_digit a, hex_digit b, hex_digit c, hex_digit d) of
        (Some h3, Some h2, Some h1, Some h0) \<Rightarrow>
          Some (code_unit_bytes (4096 * h3 + 256 * h2 + 16 * h1 + h0))
      | _ \<Rightarrow> None)"

definition simple_escape :: "char \<Rightarrow> char option" where
  "simple_escape c =
     map_of [(CHR 0x22, CHR 0x22), (CHR 0x5C, CHR 0x5C), (CHR ''/'', CHR ''/''),
             (CHR ''b'', CHR 0x08), (CHR ''f'', CHR 0x0C), (CHR ''n'', CHR 0x0A),
             (CHR ''r'', CHR 0x0D), (CHR ''t'', CHR 0x09)] c"

definition punctuation :: "char \<Rightarrow> token option" where
  "punctuation c =
     map_of [(CHR ''{'', TLBrace), (CHR ''}'', TRBrace), (CHR ''['', TLBrack),
             (CHR '']'', TRBrack), (CHR '':'', TColon), (CHR '','', TComma)] c"

text \<open>
  The lexer is a state machine over the characters: between tokens, inside a string
  (the characters read so far are kept in reverse), after a backslash, and inside a word
  (a numeral or one of \<^verbatim>\<open>true\<close>, \<^verbatim>\<open>false\<close>, \<^verbatim>\<open>null\<close>). The tokens found so far are kept
  in reverse.
\<close>

datatype lex_mode = Between | InString string | InEscape string | InWord string

fun lex :: "lex_mode \<Rightarrow> token list \<Rightarrow> string \<Rightarrow> token list option" where
  "lex Between ts [] = Some (rev ts)"
| "lex (InWord w) ts [] =
     (case word_token (rev w) of None \<Rightarrow> None | Some t \<Rightarrow> Some (rev (t # ts)))"
| "lex (InString s) ts [] = None"
| "lex (InEscape s) ts [] = None"
| "lex Between ts (c # cs) =
     (if is_ws c then lex Between ts cs
      else if c = CHR 0x22 then lex (InString []) ts cs
      else if is_word_char c then lex (InWord [c]) ts cs
      else (case punctuation c of None \<Rightarrow> None | Some t \<Rightarrow> lex Between (t # ts) cs))"
| "lex (InWord w) ts (c # cs) =
     (if is_word_char c then lex (InWord (c # w)) ts cs
      else (case word_token (rev w) of
              None \<Rightarrow> None
            | Some t \<Rightarrow>
                if is_ws c then lex Between (t # ts) cs
                else if c = CHR 0x22 then lex (InString []) (t # ts) cs
                else (case punctuation c of
                        None \<Rightarrow> None
                      | Some p \<Rightarrow> lex Between (p # t # ts) cs)))"
| "lex (InString s) ts (c # cs) =
     (if c = CHR 0x22 then lex Between (TStr (rev s) # ts) cs
      else if c = CHR 0x5C then lex (InEscape s) ts cs
      else if (of_char c :: nat) < 32 then None
      else lex (InString (c # s)) ts cs)"
| "lex (InEscape s) ts (c # cs) =
     (if c = CHR ''u'' then
        (case cs of
           a # b # d # e # cs' \<Rightarrow>
             (case unicode_escape a b d e of
                None \<Rightarrow> None
              | Some u \<Rightarrow> lex (InString (rev u @ s)) ts cs')
         | _ \<Rightarrow> None)
      else (case simple_escape c of
              None \<Rightarrow> None
            | Some x \<Rightarrow> lex (InString (x # s)) ts cs))"

text \<open>
  The automaton of the grammar. A frame is an array or an object under construction
  (members in reverse), the object possibly with a key that waits for its value.
\<close>

datatype frame =
    FArr "json list"
  | FObj "(string \<times> json) list"
  | FKey "(string \<times> json) list" string

datatype expect =
    Value | ValueOrClose | KeyOrClose | Key | Colon | Separator | Finished json

fun push_value :: "json \<Rightarrow> frame list \<Rightarrow> (expect \<times> frame list) option" where
  "push_value v [] = Some (Finished v, [])"
| "push_value v (FArr xs # stk) = Some (Separator, FArr (v # xs) # stk)"
| "push_value v (FKey ps k # stk) = Some (Separator, FObj ((k, v) # ps) # stk)"
| "push_value v (FObj ps # stk) = None"

definition open_value :: "token \<Rightarrow> frame list \<Rightarrow> (expect \<times> frame list) option" where
  "open_value t stk =
     (case t of
        TStr s \<Rightarrow> push_value (JString s) stk
      | TNum n \<Rightarrow> push_value (JNumber n) stk
      | TTrue \<Rightarrow> push_value (JBool True) stk
      | TFalse \<Rightarrow> push_value (JBool False) stk
      | TNull \<Rightarrow> push_value JNull stk
      | TLBrack \<Rightarrow> Some (ValueOrClose, FArr [] # stk)
      | TLBrace \<Rightarrow> Some (KeyOrClose, FObj [] # stk)
      | _ \<Rightarrow> None)"

definition close_frame :: "token \<Rightarrow> frame list \<Rightarrow> (expect \<times> frame list) option" where
  "close_frame t stk =
     (case (t, stk) of
        (TRBrack, FArr xs # stk') \<Rightarrow> push_value (JArray (rev xs)) stk'
      | (TRBrace, FObj ps # stk') \<Rightarrow> push_value (JObject (rev ps)) stk'
      | _ \<Rightarrow> None)"

definition take_key :: "token \<Rightarrow> frame list \<Rightarrow> (expect \<times> frame list) option" where
  "take_key t stk =
     (case (t, stk) of
        (TStr k, FObj ps # stk') \<Rightarrow> Some (Colon, FKey ps k # stk')
      | _ \<Rightarrow> None)"

definition transition :: "expect \<Rightarrow> frame list \<Rightarrow> token \<Rightarrow> (expect \<times> frame list) option" where
  "transition e stk t =
     (case e of
        Value \<Rightarrow> open_value t stk
      | ValueOrClose \<Rightarrow> if t = TRBrack then close_frame t stk else open_value t stk
      | KeyOrClose \<Rightarrow> if t = TRBrace then close_frame t stk else take_key t stk
      | Key \<Rightarrow> take_key t stk
      | Colon \<Rightarrow> if t = TColon then Some (Value, stk) else None
      | Separator \<Rightarrow>
          if t = TComma
          then (case stk of
                  FArr xs # _ \<Rightarrow> Some (Value, stk)
                | FObj ps # _ \<Rightarrow> Some (Key, stk)
                | _ \<Rightarrow> None)
          else close_frame t stk
      | Finished v \<Rightarrow> None)"

fun run :: "expect \<Rightarrow> frame list \<Rightarrow> token list \<Rightarrow> json option" where
  "run e stk [] = (case e of Finished v \<Rightarrow> Some v | _ \<Rightarrow> None)"
| "run e stk (t # ts) =
     (case transition e stk t of None \<Rightarrow> None | Some (e', stk') \<Rightarrow> run e' stk' ts)"

definition JSON_parse :: "string \<Rightarrow> json option" where
  "JSON_parse text =
     (case lex Between [] text of None \<Rightarrow> None | Some ts \<Rightarrow> run Value [] ts)"

section \<open>String helpers of the component\<close>

text \<open>\<^verbatim>\<open>Array.prototype.join\<close>, \<^verbatim>\<open>String.prototype.includes\<close> and
  \<^verbatim>\<open>String.prototype.toLowerCase\<close>. The last one is written for the letters A to Z:
  no other character becomes a letter of \<^verbatim>\<open>password\<close> when it is lowered, so the test
  of the \<^verbatim>\<open>catch\<close> clause is the same.\<close>

fun join :: "string \<Rightarrow> string list \<Rightarrow> string" where
  "join sep [] = []"
| "join sep [x] = x"
| "join sep (x # y # ys) = x @ sep @ join sep (y # ys)"

fun startsWith :: "string \<Rightarrow> string \<Rightarrow> bool" where
  "startsWith s [] = True"
| "startsWith [] (p # ps) = False"
| "startsWith (c # cs) (p # ps) = (c = p \<and> startsWith cs ps)"

fun includes_text :: "string \<Rightarrow> string \<Rightarrow> bool" where
  "includes_text [] p = (p = [])"
| "includes_text (c # cs) p = (startsWith (c # cs) p \<or> includes_text cs p)"

definition lower_char :: "char \<Rightarrow> char" where
  "lower_char c =
     (case map_of (zip ''ABCDEFGHIJKLMNOPQRSTUVWXYZ'' ''abcdefghijklmnopqrstuvwxyz'') c of
        None \<Rightarrow> c
      | Some l \<Rightarrow> l)"

definition toLowerCase :: "string \<Rightarrow> string" where
  "toLowerCase s = map lower_char s"

text \<open>A number inside a template literal: its decimal digits.\<close>

fun show_nat :: "nat \<Rightarrow> string" where
  "show_nat n =
     (if n < 10 then [''0123456789'' ! n]
      else show_nat (n div 10) @ [''0123456789'' ! (n mod 10)])"

section \<open>Text of the document: \<^verbatim>\<open>extractPdfText\<close>\<close>

text \<open>
  The PDF library is outside the repository. What the component sees of it:
  \<^verbatim>\<open>getDocument({data, password}).promise\<close> resolves to a document or rejects, and of a
  document \<^verbatim>\<open>numPages\<close> and, for each page, what \<^verbatim>\<open>getPage\<close> followed by
  \<^verbatim>\<open>getTextContent\<close> gives: the \<^verbatim>\<open>str\<close> of every text item, or a rejection.
\<close>

type_synonym page = "thrown + string list"

type_synonym pdf = "page list"

record jsfile =
  name :: string
  mime :: string
  arrayBuffer :: "nat list"

definition numPages :: "pdf \<Rightarrow> nat" where
  "numPages doc = length doc"

definition getPage :: "pdf \<Rightarrow> nat \<Rightarrow> page" where
  "getPage doc i =
     (if 1 \<le> i \<and> i \<le> length doc then doc ! (i - 1)
      else Inl (newError ''Invalid page request.''))"

text \<open>The \<^verbatim>\<open>for\<close> loop of lines 49 to 54, from page \<open>i\<close> on, with \<open>out\<close> so far.\<close>

function extract_loop :: "pdf \<Rightarrow> nat \<Rightarrow> string \<Rightarrow> thrown + string" where
  "extract_loop doc i out =
     (if i \<le> min (numPages doc) 3
      then (case getPage doc i of
              Inl e \<Rightarrow> Inl e
            | Inr items \<Rightarrow> extract_loop doc (i + 1) (out @ join '' '' items @ ''\<newline>''))
      else Inr out)"
  by pat_completeness auto
termination
  by (relation "measure (\<lambda>(doc, i, out). 4 - i)") auto

declare extract_loop.simps [simp del]

text \<open>
  \<open>lib\<close> is what \<^verbatim>\<open>setupPdfWorker\<close> returns: the library (its \<^verbatim>\<open>getDocument\<close>), or
  null where there is no window.
\<close>

definition extractPdfText ::
  "(nat list \<Rightarrow> string \<Rightarrow> thrown + pdf) option \<Rightarrow> jsfile \<Rightarrow> string option \<Rightarrow> thrown + string"
where
  "extractPdfText lib file pdfPassword =
     (case lib of
        None \<Rightarrow> Inl (newError ''PDF.js not available'')
      | Some getDocument \<Rightarrow>
          (case getDocument (arrayBuffer file)
                  (case pdfPassword of None \<Rightarrow> [] | Some p \<Rightarrow> p) of
             Inl e \<Rightarrow> Inl e
           | Inr doc \<Rightarrow> extract_loop doc 1 []))"

section \<open>The model call: \<^verbatim>\<open>callOpenAI\<close>\<close>

definition build_prompt :: "string \<Rightarrow> string" where
  \<open>build_prompt text =
     ''\<newline>Extract the following fields in JSON format from the credit card statement text:\<newline>'' @
     ''issuer, cardLast4, statementPeriod, dueDate, totalBalance, minimumPayment.\<newline>'' @
     ''If a field cannot be found, use "Not Found".\<newline>'' @
     ''\<newline>'' @
     ''Statement text:\<newline>'' @
     text @ ''\<newline>''\<close>

record request =
  url :: string
  authorization :: string
  model :: string
  content :: string
  max_tokens :: nat
  temperature :: nat

text \<open>
  \<^verbatim>\<open>fetch\<close> and the endpoint are outside the repository. Of the response the function
  reads \<^verbatim>\<open>ok\<close>, \<^verbatim>\<open>status\<close>, and in the body \<^verbatim>\<open>errorJson?.error?.message\<close>
  (\<open>error_message\<close>: its text, or \<open>None\<close> when it is missing or the body is not JSON)
  and \<^verbatim>\<open>data.choices?.[0]?.message?.content\<close> (\<open>choice_content\<close>: the string, \<open>None\<close>
  when the chain ends in undefined, \<open>Inl\<close> when reading the body throws).
\<close>

record response =
  ok :: bool
  status :: nat
  error_message :: "string option"
  choice_content :: "thrown + string option"

definition chat_request :: "string \<Rightarrow> string \<Rightarrow> request" where
  "chat_request key prompt =
     \<lparr>url = ''https://api.openai.com/v1/chat/completions'',
      authorization = ''Bearer '' @ key,
      model = ''gpt-4o-mini'',
      content = prompt,
      max_tokens = 512,
      temperature = 0\<rparr>"

definition callOpenAI ::
  "string option \<Rightarrow> (request \<Rightarrow> thrown + response) \<Rightarrow> string \<Rightarrow> thrown + string"
where
  "callOpenAI OPENAI_API_KEY fetch text =
     (case OPENAI_API_KEY of
        None \<Rightarrow>
          Inl (newError
            ''OpenAI API Key is not configured. Set NEXT_PUBLIC_OPENAI_API_KEY in .env'')
      | Some key \<Rightarrow>
          if key = [] then
            Inl (newError
              ''OpenAI API Key is not configured. Set NEXT_PUBLIC_OPENAI_API_KEY in .env'')
          else
            (case fetch (chat_request key (build_prompt text)) of
               Inl e \<Rightarrow> Inl e
             | Inr r \<Rightarrow>
                 if \<not> ok r then
                   Inl (newError
                     (case error_message r of
                        None \<Rightarrow> ''OpenAI API error: '' @ show_nat (status r)
                      | Some m \<Rightarrow>
                          if m = [] then ''OpenAI API error: '' @ show_nat (status r) else m))
                 else
                   (case choice_content r of
                      Inl e \<Rightarrow> Inl e
                    | Inr None \<Rightarrow> Inr []
                    | Inr (Some c) \<Rightarrow> Inr c)))"

section \<open>Reading the model's answer (lines 106 to 121 of \<^verbatim>\<open>parsePDF\<close>)\<close>

definition NOT_FOUND_RECORD :: json where
  "NOT_FOUND_RECORD =
     JObject [(''issuer'', JString ''Not Found''),
              (''cardLast4'', JString ''Not Found''),
              (''statementPeriod'', JString ''Not Found''),
              (''dueDate'', JString ''Not Found''),
              (''totalBalance'', JString ''Not Found''),
              (''minimumPayment'', JString ''Not Found'')]"

text \<open>
  The regular expression \<^verbatim>\<open>/\{[\s\S]+\}/\<close>. At one position it matches an opening
  brace, then as many characters as possible but at least one, then a closing brace:
  \<open>match_here\<close>. \<^verbatim>\<open>String.prototype.match\<close> takes the first position where it matches:
  \<open>regex_match\<close>, which is \<^verbatim>\<open>jsonMatch[0]\<close>, or \<open>None\<close> for null.
\<close>

definition up_to_last_close :: "string \<Rightarrow> string" where
  "up_to_last_close s = rev (dropWhile (\<lambda>c. c \<noteq> CHR ''}'') (rev s))"

definition match_here :: "string \<Rightarrow> string option" where
  "match_here s =
     (case s of
        c # x # rest \<Rightarrow>
          if c = CHR ''{'' \<and> CHR ''}'' \<in> set rest
          then Some (c # x # up_to_last_close rest)
          else None
      | _ \<Rightarrow> None)"

fun regex_match :: "string \<Rightarrow> string option" where
  "regex_match [] = None"
| "regex_match (c # cs) =
     (case match_here (c # cs) of Some m \<Rightarrow> Some m | None \<Rightarrow> regex_match cs)"

text \<open>
  \<^verbatim>\<open>JSON.parse\<close> throws a SyntaxError whose message the engine chooses; \<open>syntaxMessage\<close>
  is that choice, as a function of the text.
\<close>

definition JSON_parse_or_throw :: "(string \<Rightarrow> string) \<Rightarrow> string \<Rightarrow> thrown + json" where
  "JSON_parse_or_throw syntaxMessage text =
     (case JSON_parse text of
        None \<Rightarrow> Inl (newError (syntaxMessage text))
      | Some v \<Rightarrow> Inr v)"

definition parse_response :: "(string \<Rightarrow> string) \<Rightarrow> string \<Rightarrow> thrown + json" where
  "parse_response syntaxMessage openAIResponse =
     (case JSON_parse_or_throw syntaxMessage openAIResponse of
        Inr parsed \<Rightarrow> Inr parsed
      | Inl _ \<Rightarrow>
          (case regex_match openAIResponse of
             Some jsonMatch \<Rightarrow> JSON_parse_or_throw syntaxMessage jsonMatch
           | None \<Rightarrow> Inr NOT_FOUND_RECORD))"

section \<open>The component's state and \<^verbatim>\<open>parsePDF\<close>\<close>

text \<open>
  What the component is given from outside: the PDF library, the API key of the build,
  \<^verbatim>\<open>fetch\<close>, and the engine's wording of a SyntaxError.
\<close>

record env =
  pdfjsLib :: "(nat list \<Rightarrow> string \<Rightarrow> thrown + pdf) option"
  OPENAI_API_KEY :: "string option"
  fetch :: "request \<Rightarrow> thrown + response"
  syntaxMessage :: "string \<Rightarrow> string"

text \<open>
  The \<^verbatim>\<open>useState\<close> cells. \<open>result\<close> holds whatever \<^verbatim>\<open>setResult\<close> was given; \<open>JNull\<close> is
  null.
\<close>

record state =
  currentFile :: "jsfile option"
  parsing :: bool
  result :: json
  error :: string
  dragActive :: bool
  password :: string
  needsPassword :: bool
  pendingFile :: "jsfile option"

definition initial_state :: state where
  "initial_state =
     \<lparr>currentFile = None, parsing = False, result = JNull, error = [], dragActive = False,
      password = [], needsPassword = False, pendingFile = None\<rparr>"

text \<open>
  \<^verbatim>\<open>parsePDF\<close> is an async function. Lines 97 to 100 run at once, when it is called:
  \<open>parsePDF_begin\<close>. Then it awaits the extractor and the model; neither reads nor
  writes the state, and with the parsing of the answer they give \<open>pipeline\<close>: the value
  of \<^verbatim>\<open>parsed\<close>, or what was thrown. When the awaits are over the rest runs at once:
  lines 123 to 126, or the \<^verbatim>\<open>catch\<close> clause, and \<^verbatim>\<open>finally\<close>: \<open>parsePDF_settle\<close>.
\<close>

definition parsePDF_begin :: "state \<Rightarrow> state" where
  "parsePDF_begin st = st\<lparr>parsing := True, error := [], result := JNull, needsPassword := False\<rparr>"

definition pipeline :: "env \<Rightarrow> jsfile \<Rightarrow> string option \<Rightarrow> thrown + json" where
  "pipeline e f pdfPassword =
     (case extractPdfText (pdfjsLib e) f pdfPassword of
        Inl err \<Rightarrow> Inl err
      | Inr text \<Rightarrow>
          (case callOpenAI (OPENAI_API_KEY e) (fetch e) text of
             Inl err \<Rightarrow> Inl err
           | Inr openAIResponse \<Rightarrow> parse_response (syntaxMessage e) openAIResponse))"

definition mentions_password :: "thrown \<Rightarrow> bool" where
  "mentions_password err =
     (case message err of
        None \<Rightarrow> False
      | Some m \<Rightarrow> includes_text (toLowerCase m) ''password'')"

definition PASSWORD_PROMPT :: string where
  "PASSWORD_PROMPT = ''This PDF is password protected. Please enter the correct password below.''"

definition catch_clause :: "jsfile \<Rightarrow> thrown \<Rightarrow> state \<Rightarrow> state" where
  "catch_clause f err st =
     (if mentions_password err
      then st\<lparr>needsPassword := True, pendingFile := Some f, error := PASSWORD_PROMPT\<rparr>
      else st\<lparr>error := (case message err of
                           None \<Rightarrow> ''Failed to parse PDF''
                         | Some m \<Rightarrow> if m = [] then ''Failed to parse PDF'' else m)\<rparr>)"

definition parsePDF_settle :: "jsfile \<Rightarrow> thrown + json \<Rightarrow> state \<Rightarrow> state" where
  "parsePDF_settle f outcome st =
     (case outcome of
        Inr parsed \<Rightarrow>
          st\<lparr>result := parsed, needsPassword := False, pendingFile := None, password := [],
             parsing := False\<rparr>
      | Inl err \<Rightarrow> (catch_clause f err st)\<lparr>parsing := False\<rparr>)"

text \<open>A call of \<^verbatim>\<open>parsePDF\<close> that nothing interrupts.\<close>

definition parsePDF :: "env \<Rightarrow> jsfile \<Rightarrow> string option \<Rightarrow> state \<Rightarrow> state" where
  "parsePDF e f pdfPassword st = parsePDF_settle f (pipeline e f pdfPassword) (parsePDF_begin st)"

section \<open>The handlers\<close>

text \<open>
  A handler changes the state and may call \<^verbatim>\<open>parsePDF\<close>; it returns the state after
  the part of the call that runs at once, and the call it has left pending.
\<close>

type_synonym call = "jsfile \<times> string option"

definition handleDrop :: "jsfile list \<Rightarrow> state \<Rightarrow> state \<times> call option" where
  "handleDrop files st =
     (let st1 = st\<lparr>dragActive := False\<rparr>
      in case files of
           [] \<Rightarrow> (st1, None)
         | droppedFile # _ \<Rightarrow>
             if mime droppedFile = ''application/pdf''
             then (parsePDF_begin (st1\<lparr>currentFile := Some droppedFile\<rparr>), Some (droppedFile, None))
             else (st1\<lparr>error := ''Please upload a PDF file''\<rparr>, None))"

definition handleFileChange :: "jsfile list \<Rightarrow> state \<Rightarrow> state \<times> call option" where
  "handleFileChange files st =
     (case files of
        [] \<Rightarrow> (st, None)
      | selectedFile # _ \<Rightarrow>
          (parsePDF_begin (st\<lparr>currentFile := Some selectedFile, password := []\<rparr>),
           Some (selectedFile, None)))"

definition handlePasswordSubmit :: "state \<Rightarrow> state \<times> call option" where
  "handlePasswordSubmit st =
     (case pendingFile st of
        None \<Rightarrow> (st, None)
      | Some f \<Rightarrow>
          if password st \<noteq> [] then (parsePDF_begin st, Some (f, Some (password st)))
          else (st, None))"

text \<open>The pending call of a handler runs to its end before anything else happens.\<close>

definition settle_now :: "env \<Rightarrow> state \<times> call option \<Rightarrow> state" where
  "settle_now e sc =
     (case sc of
        (st, None) \<Rightarrow> st
      | (st, Some (f, pw)) \<Rightarrow> parsePDF_settle f (pipeline e f pw) st)"

section \<open>Events in any order\<close>

text \<open>
  The page between two events: the state and the calls of \<^verbatim>\<open>parsePDF\<close> that still
  await. The file input is disabled while \<open>parsing\<close> (line 275) and the drop zone never
  is; the password form is rendered while \<open>needsPassword\<close> and its button is disabled
  while \<open>parsing\<close> or with an empty password. \<open>Settle c\<close> is the moment the awaits of
  the pending call \<open>c\<close> are over.
\<close>

datatype event =
    FileChange "jsfile list"
  | Drop "jsfile list"
  | TypePassword string
  | PasswordSubmit
  | Settle call

definition started :: "state \<times> call option \<Rightarrow> call list \<Rightarrow> state \<times> call list" where
  "started sc pending =
     (case sc of (st, None) \<Rightarrow> (st, pending) | (st, Some c) \<Rightarrow> (st, pending @ [c]))"

definition fire :: "env \<Rightarrow> event \<Rightarrow> state \<times> call list \<Rightarrow> (state \<times> call list) option" where
  "fire e ev page =
     (case page of (st, pending) \<Rightarrow>
        (case ev of
           FileChange files \<Rightarrow>
             if parsing st then None else Some (started (handleFileChange files st) pending)
         | Drop files \<Rightarrow> Some (started (handleDrop files st) pending)
         | TypePassword p \<Rightarrow>
             if needsPassword st then Some (st\<lparr>password := p\<rparr>, pending) else None
         | PasswordSubmit \<Rightarrow>
             if needsPassword st \<and> password st \<noteq> [] \<and> \<not> parsing st
             then Some (started (handlePasswordSubmit st) pending)
             else None
         | Settle c \<Rightarrow>
             if c \<in> set pending
             then Some (parsePDF_settle (fst c) (pipeline e (fst c) (snd c)) st, remove1 c pending)
             else None))"

fun fire_all :: "env \<Rightarrow> event list \<Rightarrow> state \<times> call list \<Rightarrow> (state \<times> call list) option" where
  "fire_all e [] page = Some page"
| "fire_all e (ev # evs) page =
     (case fire e ev page of None \<Rightarrow> None | Some page' \<Rightarrow> fire_all e evs page')"

section \<open>A concrete environment for the worked examples\<close>

text \<open>
  An engine, seven files, a PDF library that knows them and a model endpoint, used to run
  the component on explicit inputs. The first file is locked with the password
  \<^verbatim>\<open>secret\<close>; the library's two password errors carry the messages of pdf.js.
\<close>

definition engine_message :: "string \<Rightarrow> string" where
  "engine_message text = ''Unexpected token in JSON''"

definition chase_locked :: jsfile where
  "chase_locked = \<lparr>name = ''chase.pdf'', mime = ''application/pdf'', arrayBuffer = [1]\<rparr>"

definition amex_open :: jsfile where
  "amex_open = \<lparr>name = ''amex.pdf'', mime = ''application/pdf'', arrayBuffer = [2]\<rparr>"

definition chase_open :: jsfile where
  "chase_open = \<lparr>name = ''chase-open.pdf'', mime = ''application/pdf'', arrayBuffer = [3]\<rparr>"

definition garbled_open :: jsfile where
  "garbled_open = \<lparr>name = ''garbled.pdf'', mime = ''application/pdf'', arrayBuffer = [4]\<rparr>"

definition silent_broken :: jsfile where
  "silent_broken = \<lparr>name = ''broken.pdf'', mime = ''application/pdf'', arrayBuffer = [5]\<rparr>"

definition corrupt_file :: jsfile where
  "corrupt_file = \<lparr>name = ''corrupt.pdf'', mime = ''application/pdf'', arrayBuffer = [7]\<rparr>"

definition other_open :: jsfile where
  "other_open = \<lparr>name = ''other.pdf'', mime = ''application/pdf'', arrayBuffer = [6]\<rparr>"

definition chase_doc :: pdf where
  "chase_doc = [Inr [''Chase'', ''Statement''], Inr [], Inr [''Due'', ''Jan'', ''5''],
                Inr [''page'', ''four'']]"

definition example_getDocument :: "nat list \<Rightarrow> string \<Rightarrow> thrown + pdf" where
  "example_getDocument data pw =
     (if data = [1] then
        (if pw = [] then Inl (newError ''No password given'')
         else if pw = ''secret'' then Inr chase_doc
         else Inl (newError ''Incorrect Password''))
      else if data = [2] then Inr [Inr [''Amex'']]
      else if data = [3] then Inr chase_doc
      else if data = [4] then Inr [Inr [''Garbled'']]
      else if data = [5] then Inl (newError [])
      else if data = [7] then Inl (newError ''Invalid PDF structure.'')
      else Inr [Inr [''Other'']])"

definition example_fetch :: "request \<Rightarrow> thrown + response" where
  \<open>example_fetch req =
     (if content req = build_prompt ''Chase Statement\<newline>\<newline>Due Jan 5\<newline>'' then
        Inr \<lparr>ok = True, status = 200, error_message = None,
             choice_content = Inr (Some ''{"issuer":"Chase"}'')\<rparr>
      else if content req = build_prompt ''Amex\<newline>'' then
        Inr \<lparr>ok = True, status = 200, error_message = None,
             choice_content = Inr (Some ''{"issuer":"Amex"}'')\<rparr>
      else if content req = build_prompt ''Garbled\<newline>'' then
        Inr \<lparr>ok = True, status = 200, error_message = None,
             choice_content = Inr (Some ''{x}'')\<rparr>
      else
        Inr \<lparr>ok = False, status = 401,
             error_message = Some ''Your account password has expired'',
             choice_content = Inl (newError ''unread'')\<rparr>)\<close>

definition example_env :: env where
  "example_env =
     \<lparr>pdfjsLib = Some example_getDocument, OPENAI_API_KEY = Some ''sk-test'',
      fetch = example_fetch, syntaxMessage = engine_message\<rparr>"

section \<open>Evaluation rules and auxiliary facts\<close>

lemmas json_eval = JSON_parse_def is_ws_def is_word_char_def punctuation_def word_token_def
  transition_def open_value_def close_frame_def take_key_def is_number_def is_fraction_def
  is_exponent_def is_digit_def simple_escape_def

lemmas pipeline_eval = pipeline_def extractPdfText_def callOpenAI_def chat_request_def
  example_env_def example_getDocument_def example_fetch_def build_prompt_def
  chase_doc_def numPages_def getPage_def extract_loop.simps engine_message_def
  parse_response_def JSON_parse_or_throw_def match_here_def up_to_last_close_def

lemmas state_eval = settle_now_def handleFileChange_def handleDrop_def handlePasswordSubmit_def
  parsePDF_settle_def parsePDF_begin_def catch_clause_def initial_state_def parsePDF_def

lemmas password_eval = mentions_password_def toLowerCase_def lower_char_def

text \<open>
  Where the regular expression matches. If \<open>pre\<close> has no opening brace, \<open>suf\<close> no closing
  brace and \<open>body\<close> is not empty, the match in \<open>pre {body} suf\<close> is \<open>{body}\<close>: from the
  first opening brace to the last closing brace.
\<close>

lemma regex_match_span:
  assumes "CHR ''{'' \<notin> set pre" and "CHR ''}'' \<notin> set suf" and "body \<noteq> []"
  shows "regex_match (pre @ CHR ''{'' # body @ CHR ''}'' # suf) =
           Some (CHR ''{'' # body @ [CHR ''}''])"
  using assms(1)
proof (induction pre)
  case Nil
  obtain x b where body: "body = x # b" using assms(3) by (cases body) auto
  have "dropWhile (\<lambda>c. c \<noteq> CHR ''}'') (rev suf) = []"
    using assms(2) by auto
  then have "up_to_last_close (b @ CHR ''}'' # suf) = b @ [CHR ''}'']"
    using assms(2) by (simp add: up_to_last_close_def dropWhile_append)
  then show ?case by (simp add: body match_here_def)
next
  case (Cons c pre)
  then have "c \<noteq> CHR ''{''" by auto
  then have "match_here (c # pre @ CHR ''{'' # body @ CHR ''}'' # suf) = None"
    by (simp add: match_here_def split: list.splits)
  with Cons show ?case by simp
qed

text \<open>The loop of \<open>extractPdfText\<close> from page \<open>i\<close> on, when the first three pages decode.\<close>

lemma extract_loop_pages:
  assumes "take 3 doc = map Inr texts"
  shows "1 \<le> i \<Longrightarrow> i \<le> length texts + 1 \<Longrightarrow>
         extract_loop doc i out =
           Inr (out @ concat (map (\<lambda>items. join '' '' items @ ''\<newline>'') (drop (i - 1) texts)))"
proof (induction "length texts + 1 - i" arbitrary: i out)
  case 0
  then have "i = length texts + 1" by simp
  moreover have len: "length texts = min (length doc) 3"
    using arg_cong [OF assms, of length] by (simp add: min.commute)
  ultimately have "\<not> i \<le> min (numPages doc) 3"
    unfolding numPages_def by arith
  then have "extract_loop doc i out = Inr out"
    by (subst extract_loop.simps) auto
  with \<open>i = length texts + 1\<close> show ?case by simp
next
  case (Suc n)
  have len: "length texts = min (length doc) 3"
    using arg_cong [OF assms, of length] by (simp add: min.commute)
  from Suc have i: "1 \<le> i" "i \<le> length texts" by auto
  then have "i - 1 < length texts" by auto
  have "i - 1 < 3" using i len by arith
  then have "doc ! (i - 1) = take 3 doc ! (i - 1)"
    by simp
  also have "\<dots> = Inr (texts ! (i - 1))"
    using \<open>i - 1 < length texts\<close> by (simp add: assms)
  finally have page: "getPage doc i = Inr (texts ! (i - 1))"
    using i len by (simp add: getPage_def)
  have step: "extract_loop doc i out =
        extract_loop doc (i + 1) (out @ join '' '' (texts ! (i - 1)) @ ''\<newline>'')"
    using i len page by (subst extract_loop.simps) (simp add: numPages_def)
  have "n = length texts + 1 - (i + 1)" using Suc.hyps(2) by simp
  from Suc.hyps(1) [OF this, of "out @ join '' '' (texts ! (i - 1)) @ ''\<newline>''"] i
  have "extract_loop doc (i + 1) (out @ join '' '' (texts ! (i - 1)) @ ''\<newline>'') =
        Inr ((out @ join '' '' (texts ! (i - 1)) @ ''\<newline>'') @
             concat (map (\<lambda>items. join '' '' items @ ''\<newline>'') (drop i texts)))"
    by simp
  moreover have "drop (i - 1) texts = texts ! (i - 1) # drop i texts"
    using Cons_nth_drop_Suc [OF \<open>i - 1 < length texts\<close>] i by simp
  ultimately show ?case using step by simp
qed


text \<open>The pipeline on the files of the example environment.\<close>

lemma chase_locked_first:
  "pipeline example_env chase_locked None = Inl (newError ''No password given'')"
  by (simp add: pipeline_eval chase_locked_def)

lemma chase_locked_wrong:
  "pipeline example_env chase_locked (Some ''wrong'') = Inl (newError ''Incorrect Password'')"
  by (simp add: pipeline_eval chase_locked_def)


lemma chase_open_pipeline:
  \<open>pipeline example_env chase_open None = Inr (JObject [(''issuer'', JString ''Chase'')])\<close>
  by (simp add: pipeline_eval json_eval chase_open_def)

lemma amex_open_pipeline:
  \<open>pipeline example_env amex_open None = Inr (JObject [(''issuer'', JString ''Amex'')])\<close>
  by (simp add: pipeline_eval json_eval amex_open_def)

lemma garbled_pipeline:
  "pipeline example_env garbled_open None = Inl (newError ''Unexpected token in JSON'')"
  by (simp add: pipeline_eval json_eval garbled_open_def)

lemma silent_pipeline: "pipeline example_env silent_broken None = Inl (newError [])"
  by (simp add: pipeline_eval silent_broken_def)

lemma other_pipeline:
  "pipeline example_env other_open None =
     Inl (newError ''Your account password has expired'')"
  by (simp add: pipeline_eval other_open_def)

lemma corrupt_pipeline:
  "pipeline example_env corrupt_file None = Inl (newError ''Invalid PDF structure.'')"
  by (simp add: pipeline_eval corrupt_file_def)

lemma no_password_given_mentions: "mentions_password (newError ''No password given'')"
  by (simp add: password_eval)

lemma incorrect_password_mentions: "mentions_password (newError ''Incorrect Password'')"
  by (simp add: password_eval)

lemma expired_mentions: "mentions_password (newError ''Your account password has expired'')"
  by (simp add: password_eval)

lemma invalid_structure_not: "\<not> mentions_password (newError ''Invalid PDF structure.'')"
  by (simp add: password_eval)

section \<open>Reading the model's answer\<close>

subsection \<open>C1: the parser is not total\<close>

text \<open>
  C1 says that parsing the model's answer returns a record for every text and never
  throws, so that a malformed answer never becomes an error of the pipeline. The code
  guards the first \<^verbatim>\<open>JSON.parse\<close> only: the second one, on the span the regular expression
  found, runs inside the \<^verbatim>\<open>catch\<close> block, and what it throws reaches the \<^verbatim>\<open>catch\<close> clause
  of \<^verbatim>\<open>parsePDF\<close>. What holds (C1 as amended): when the whole answer is JSON, or the
  regular expression finds no span, or the span it finds is JSON, the parser returns a
  value and \<^verbatim>\<open>parsePDF\<close> publishes it with no error; with no JSON and no span the value
  is the record of six \<^verbatim>\<open>Not Found\<close>.
\<close>

theorem parse_response_recoverable:
  assumes "JSON_parse r \<noteq> None \<or> regex_match r = None \<or>
           (\<exists>m. regex_match r = Some m \<and> JSON_parse m \<noteq> None)"
  shows "(\<exists>v. parse_response msg r = Inr v \<and>
              result (parsePDF_settle f (parse_response msg r) (parsePDF_begin st)) = v \<and>
              error (parsePDF_settle f (parse_response msg r) (parsePDF_begin st)) = []) \<and>
         (JSON_parse r = None \<and> regex_match r = None \<longrightarrow>
            parse_response msg r = Inr NOT_FOUND_RECORD)"
  using assms
  by (auto simp: parse_response_def JSON_parse_or_throw_def parsePDF_settle_def
        parsePDF_begin_def split: option.splits)

text \<open>The amended C1 on the answer \<^verbatim>\<open>not json at all\<close>.\<close>

theorem parse_response_recoverable_witness:
  "JSON_parse ''not json at all'' = None \<and> regex_match ''not json at all'' = None \<and>
   parse_response engine_message ''not json at all'' = Inr NOT_FOUND_RECORD \<and>
   error (parsePDF_settle amex_open (parse_response engine_message ''not json at all'')
            (parsePDF_begin initial_state)) = []"
proof -
  have h: "regex_match ''not json at all'' = None"
    by (simp add: match_here_def)
  have j: "JSON_parse ''not json at all'' = None"
    by (simp add: json_eval)
  from h have "JSON_parse ''not json at all'' \<noteq> None \<or>
      regex_match ''not json at all'' = None \<or>
      (\<exists>m. regex_match ''not json at all'' = Some m \<and> JSON_parse m \<noteq> None)"
    by simp
  from parse_response_recoverable [OF this, of engine_message amex_open initial_state] h j
  show ?thesis by auto
qed

text \<open>
  C1 as it is written fails on the answer \<^verbatim>\<open>{x}\<close>: the parser throws, and the component
  ends with the SyntaxError's message as its error and no result.
\<close>

theorem parse_response_throws_counterexample:
  "parse_response engine_message ''{x}'' = Inl (newError ''Unexpected token in JSON'') \<and>
   pipeline example_env garbled_open None = Inl (newError ''Unexpected token in JSON'') \<and>
   error (settle_now example_env (handleFileChange [garbled_open] initial_state)) =
     ''Unexpected token in JSON'' \<and>
   result (settle_now example_env (handleFileChange [garbled_open] initial_state)) = JNull"
  by (simp add: garbled_pipeline state_eval password_eval parse_response_def
        JSON_parse_or_throw_def match_here_def up_to_last_close_def json_eval engine_message_def)

subsection \<open>C2: missing keys stay missing\<close>

text \<open>
  C2 says that for a JSON object with some of the six keys the record returned has all
  six, the missing ones filled with \<^verbatim>\<open>Not Found\<close>. The code has no such step: the value
  of \<^verbatim>\<open>JSON.parse\<close> goes to \<^verbatim>\<open>setResult\<close> as it is. What holds (C2 as amended): the
  record returned and published is the parsed object itself, from the whole answer or
  from the span, so every key reads in it as it reads in that object, and a key the
  object lacks is lacking in the record.
\<close>

theorem parse_response_returns_basis:
  assumes "JSON_parse r = Some v \<or>
           (JSON_parse r = None \<and> regex_match r = Some m \<and> JSON_parse m = Some v)"
  shows "parse_response msg r = Inr v \<and>
         result (parsePDF_settle f (parse_response msg r) st) = v \<and>
         (\<forall>k. get_field (result (parsePDF_settle f (parse_response msg r) st)) k =
               get_field v k)"
  using assms
  by (auto simp: parse_response_def JSON_parse_or_throw_def parsePDF_settle_def)

text \<open>The amended C2 on an object with two of the keys.\<close>

theorem parse_response_returns_basis_witness:
  \<open>parse_response engine_message ''{"issuer":"Amex","dueDate":"Jan 5"}'' =
     Inr (JObject [(''issuer'', JString ''Amex''), (''dueDate'', JString ''Jan 5'')]) \<and>
   get_field (result (parsePDF_settle amex_open
       (parse_response engine_message ''{"issuer":"Amex","dueDate":"Jan 5"}'') initial_state))
     ''totalBalance'' = None\<close>
proof -
  have h: \<open>JSON_parse ''{"issuer":"Amex","dueDate":"Jan 5"}'' =
      Some (JObject [(''issuer'', JString ''Amex''), (''dueDate'', JString ''Jan 5'')])\<close>
    by (simp add: json_eval)
  from parse_response_returns_basis [OF disjI1, OF h, of engine_message amex_open initial_state]
  show ?thesis by (simp add: get_field_def parsePDF_settle_def)
qed

text \<open>
  C2 as it is written fails on an object with one key: the record has that key only.
\<close>

theorem parse_response_missing_keys_counterexample:
  \<open>parse_response engine_message ''{"issuer":"Chase"}'' =
     Inr (JObject [(''issuer'', JString ''Chase'')]) \<and>
   get_field (JObject [(''issuer'', JString ''Chase'')]) ''cardLast4'' = None\<close>
  by (simp add: parse_response_def JSON_parse_or_throw_def json_eval get_field_def)

subsection \<open>C6: the object inside prose\<close>

text \<open>
  C6 says that when the whole answer is not JSON the parser takes the text from the first
  opening brace to the last closing brace, both included, and parses that, so that a
  JSON object with prose around it gives the record the object writes. The regular
  expression of line 112 is greedy and asks for at least one character between the
  braces: a brace in the prose widens the span, and the span \<^verbatim>\<open>{}\<close> is never taken. What
  holds (C6 as amended): when the whole answer is not JSON and at least one character
  lies between its first opening brace and its last closing brace, the parser's result
  is that of \<^verbatim>\<open>JSON.parse\<close> on the text from the one to the other; so an answer that is
  a JSON object with a member, after prose with no opening brace and before prose with
  no closing brace, gives the record the object writes.
\<close>

theorem parse_response_embedded_object:
  assumes "JSON_parse (pre @ CHR ''{'' # body @ CHR ''}'' # suf) = None"
    and "CHR ''{'' \<notin> set pre" and "CHR ''}'' \<notin> set suf" and "body \<noteq> []"
  shows "parse_response msg (pre @ CHR ''{'' # body @ CHR ''}'' # suf) =
           JSON_parse_or_throw msg (CHR ''{'' # body @ [CHR ''}'']) \<and>
         (\<forall>v. JSON_parse (CHR ''{'' # body @ [CHR ''}'']) = Some v \<longrightarrow>
            parse_response msg (pre @ CHR ''{'' # body @ CHR ''}'' # suf) = Inr v)"
  using assms(1) regex_match_span [OF assms(2,3,4)]
  by (simp add: parse_response_def JSON_parse_or_throw_def)

text \<open>C6 on the answer of the specification's example.\<close>

theorem parse_response_embedded_object_witness:
  \<open>JSON_parse (''Here is the data: '' @ CHR ''{'' # ''"issuer":"Chase","cardLast4":"1234","statementPeriod":"Not Found","dueDate":"Not Found","totalBalance":"Not Found","minimumPayment":"Not Found"'' @ CHR ''}'' # '' Let me know if needed.'') = None \<and>
   parse_response engine_message ''Here is the data: {"issuer":"Chase","cardLast4":"1234","statementPeriod":"Not Found","dueDate":"Not Found","totalBalance":"Not Found","minimumPayment":"Not Found"} Let me know if needed.'' =
     Inr (JObject [(''issuer'', JString ''Chase''), (''cardLast4'', JString ''1234''),
                   (''statementPeriod'', JString ''Not Found''),
                   (''dueDate'', JString ''Not Found''),
                   (''totalBalance'', JString ''Not Found''),
                   (''minimumPayment'', JString ''Not Found'')])\<close>
proof -
  have h1: \<open>JSON_parse (''Here is the data: '' @ CHR ''{'' # ''"issuer":"Chase","cardLast4":"1234","statementPeriod":"Not Found","dueDate":"Not Found","totalBalance":"Not Found","minimumPayment":"Not Found"'' @ CHR ''}'' # '' Let me know if needed.'') = None\<close>
    by (simp add: json_eval)
  have h2: "CHR ''{'' \<notin> set ''Here is the data: ''" by simp
  have h3: "CHR ''}'' \<notin> set '' Let me know if needed.''" by simp
  have h4: \<open>''"issuer":"Chase","cardLast4":"1234","statementPeriod":"Not Found","dueDate":"Not Found","totalBalance":"Not Found","minimumPayment":"Not Found"'' \<noteq> []\<close>
    by simp
  have v: \<open>JSON_parse (CHR ''{'' # ''"issuer":"Chase","cardLast4":"1234","statementPeriod":"Not Found","dueDate":"Not Found","totalBalance":"Not Found","minimumPayment":"Not Found"'' @ [CHR ''}'']) =
     Some (JObject [(''issuer'', JString ''Chase''), (''cardLast4'', JString ''1234''),
                    (''statementPeriod'', JString ''Not Found''),
                    (''dueDate'', JString ''Not Found''),
                    (''totalBalance'', JString ''Not Found''),
                    (''minimumPayment'', JString ''Not Found'')])\<close>
    by (simp add: json_eval)
  show ?thesis
    using h1 v parse_response_embedded_object [OF h1 h2 h3 h4, of engine_message]
    by (simp add: JSON_parse_or_throw_def)
qed

text \<open>
  C6 as it is written fails on an object after prose that has braces of its own: the
  span starts in the prose, is not JSON, and the parser throws. It fails too on
  \<^verbatim>\<open>x{}\<close>: the text from the first opening brace to the last closing brace is \<^verbatim>\<open>{}\<close>,
  which is not parsed; the result is the default record and not the empty object.
\<close>

theorem parse_response_braces_in_prose_counterexample:
  \<open>JSON_parse ''{"issuer":"Chase","cardLast4":"1234","statementPeriod":"Not Found","dueDate":"Not Found","totalBalance":"Not Found","minimumPayment":"Not Found"}'' =
     Some (JObject [(''issuer'', JString ''Chase''), (''cardLast4'', JString ''1234''),
                    (''statementPeriod'', JString ''Not Found''),
                    (''dueDate'', JString ''Not Found''),
                    (''totalBalance'', JString ''Not Found''),
                    (''minimumPayment'', JString ''Not Found'')]) \<and>
   parse_response engine_message ''Note {a}: {"issuer":"Chase","cardLast4":"1234","statementPeriod":"Not Found","dueDate":"Not Found","totalBalance":"Not Found","minimumPayment":"Not Found"}'' =
     Inl (newError ''Unexpected token in JSON'') \<and>
   JSON_parse ''{}'' = Some (JObject []) \<and>
   parse_response engine_message ''x{}'' = Inr NOT_FOUND_RECORD\<close>
  by (simp add: parse_response_def JSON_parse_or_throw_def match_here_def up_to_last_close_def
        json_eval engine_message_def)

subsection \<open>C7: the empty answer and \<^verbatim>\<open>Not Found\<close>\<close>

text \<open>
  C7: the parser on the empty string and on the string \<^verbatim>\<open>Not Found\<close> returns the record
  with all six fields set to \<^verbatim>\<open>Not Found\<close>, whatever the engine's error message.
\<close>

theorem parse_response_default:
  "parse_response msg [] = Inr NOT_FOUND_RECORD \<and>
   parse_response msg ''Not Found'' = Inr NOT_FOUND_RECORD"
  by (simp add: parse_response_def JSON_parse_or_throw_def match_here_def json_eval)

section \<open>The prompt and the extractor\<close>

subsection \<open>C8: the prompt is a function of the text\<close>

text \<open>
  C8: building the prompt is deterministic and pure. The template of \<^verbatim>\<open>callOpenAI\<close> has
  one hole, the document text, so equal texts give equal prompts (and, the text being
  embedded whole, only equal texts do); the API key does not enter the prompt that the
  request carries.
\<close>

theorem build_prompt_deterministic:
  "(build_prompt t1 = build_prompt t2) = (t1 = t2) \<and>
   content (chat_request key1 (build_prompt t1)) = build_prompt t1 \<and>
   content (chat_request key2 (build_prompt t1)) = build_prompt t1"
  by (simp add: build_prompt_def chat_request_def)

subsection \<open>C9: the first three pages\<close>

text \<open>
  C9: for a document that decodes, the extractor returns the text of its first three
  pages, or of all its pages when it has fewer, in page order. The text of a page is the
  \<^verbatim>\<open>str\<close> of its items joined by single spaces, and each page is followed by one line
  feed: one stands between two pages, and one after the last.
\<close>

theorem extractPdfText_first_three_pages:
  assumes "getDocument (arrayBuffer f) (case pw of None \<Rightarrow> [] | Some p \<Rightarrow> p) = Inr doc"
    and "take 3 doc = map Inr texts"
  shows "extractPdfText (Some getDocument) f pw =
           Inr (concat (map (\<lambda>items. join '' '' items @ ''\<newline>'') texts)) \<and>
         length texts = min (numPages doc) 3"
proof -
  have "length texts = min (numPages doc) 3"
    using arg_cong [OF assms(2), of length] by (simp add: min.commute numPages_def)
  moreover have "extract_loop doc 1 [] =
      Inr (concat (map (\<lambda>items. join '' '' items @ ''\<newline>'') texts))"
    using extract_loop_pages [OF assms(2), of 1 "[]"] by simp
  ultimately show ?thesis
    using assms(1) by (simp add: extractPdfText_def)
qed

text \<open>C9 on a document of four pages, the second one empty.\<close>

theorem extractPdfText_first_three_pages_witness:
  "extractPdfText (Some example_getDocument) chase_locked (Some ''secret'') =
     Inr ''Chase Statement\<newline>\<newline>Due Jan 5\<newline>'' \<and>
   numPages chase_doc = 4"
proof -
  have h2: "example_getDocument (arrayBuffer chase_locked)
              (case Some ''secret'' of None \<Rightarrow> [] | Some p \<Rightarrow> p) = Inr chase_doc"
    by (simp add: example_getDocument_def chase_locked_def)
  have h3: "take 3 chase_doc =
              map Inr [[''Chase'', ''Statement''], [], [''Due'', ''Jan'', ''5'']]"
    by (simp add: chase_doc_def)
  show ?thesis
    using extractPdfText_first_three_pages
      [where getDocument = example_getDocument and f = chase_locked
         and pw = "Some ''secret''", OF h2 h3]
    by (simp add: chase_doc_def numPages_def)
qed

section \<open>The controller\<close>

text \<open>
  The states of the specification, read off the cells: Extracting is \<open>parsing\<close>;
  AwaitingCredential is \<open>needsPassword\<close> with the file kept in \<open>pendingFile\<close>; Succeeded is
  a published \<open>result\<close> with no error; Failed is an \<open>error\<close> without \<open>needsPassword\<close>.
\<close>

subsection \<open>C3: the password retry\<close>



subsection \<open>C4: two calls in flight\<close>

text \<open>
  C4: after two submits the result published is the second call's, and a late answer to
  the first call is never published. The file input (line 275) and the button of the
  password form (line 348) are disabled while \<open>parsing\<close>, so neither starts a second call;
  the drop zone has no such guard, and \<^verbatim>\<open>parsePDF\<close> does not tell a current call from a
  superseded one. The code on two drops, the second file's answer arriving first: the
  page ends showing the second file with the first file's record, which is not the
  record of the second file. The same second submit through the file input is refused.
\<close>

theorem late_response_overwrites_second_result:
  \<open>fire_all example_env
     [Drop [chase_open], Drop [amex_open], Settle (amex_open, None), Settle (chase_open, None)]
     (initial_state, []) =
     Some (\<lparr>currentFile = Some amex_open, parsing = False,
            result = JObject [(''issuer'', JString ''Chase'')], error = [], dragActive = False,
            password = [], needsPassword = False, pendingFile = None\<rparr>, []) \<and>
   pipeline example_env amex_open None = Inr (JObject [(''issuer'', JString ''Amex'')]) \<and>
   fire_all example_env [Drop [chase_open], FileChange [amex_open]] (initial_state, []) = None\<close>
proof -
  have ne: "chase_open \<noteq> amex_open"
    by (simp add: chase_open_def amex_open_def)
  have m: "mime chase_open = ''application/pdf''" "mime amex_open = ''application/pdf''"
    by (simp_all add: chase_open_def amex_open_def)
  show ?thesis
    using ne m
    by (simp add: fire_def started_def handleDrop_def parsePDF_begin_def parsePDF_settle_def
          initial_state_def chase_open_pipeline amex_open_pipeline)
qed

subsection \<open>C5: one message for both password errors\<close>

text \<open>
  C5 says that the message shown with the password prompt tells a missing password from
  a wrong one. The \<^verbatim>\<open>catch\<close> clause has one message for every error that mentions a
  password. What holds (C5 as amended): whichever two such errors, the first on a file
  and a later one after a wrong password, the component shows the same text,
  \<open>PASSWORD_PROMPT\<close>, and asks for the password.
\<close>

theorem password_reason_is_fixed:
  assumes "mentions_password err1" and "mentions_password err2"
  shows "error (parsePDF_settle f (Inl err1) st1) = PASSWORD_PROMPT \<and>
         error (parsePDF_settle f (Inl err2) st2) = PASSWORD_PROMPT \<and>
         needsPassword (parsePDF_settle f (Inl err1) st1) \<and>
         needsPassword (parsePDF_settle f (Inl err2) st2)"
  using assms by (simp add: parsePDF_settle_def catch_clause_def)

text \<open>The amended C5 on the two password errors of pdf.js.\<close>

theorem password_reason_is_fixed_witness:
  "mentions_password (newError ''No password given'') \<and>
   mentions_password (newError ''Incorrect Password'') \<and>
   error (parsePDF_settle chase_locked (Inl (newError ''No password given'')) initial_state) =
   error (parsePDF_settle chase_locked (Inl (newError ''Incorrect Password'')) initial_state)"
  using password_reason_is_fixed [OF no_password_given_mentions incorrect_password_mentions,
      of chase_locked initial_state initial_state]
    no_password_given_mentions incorrect_password_mentions
  by simp

text \<open>
  C5 as it is written fails on the locked file: submitted without a password and then
  retried with a wrong one, it shows the same message twice.
\<close>

theorem password_reason_same_counterexample:
  \<open>pipeline example_env chase_locked None = Inl (newError ''No password given'') \<and>
   pipeline example_env chase_locked (Some ''wrong'') = Inl (newError ''Incorrect Password'') \<and>
   error (settle_now example_env (handleFileChange [chase_locked] initial_state)) =
     ''This PDF is password protected. Please enter the correct password below.'' \<and>
   snd (handlePasswordSubmit
       ((settle_now example_env (handleFileChange [chase_locked] initial_state))
          \<lparr>password := ''wrong''\<rparr>)) = Some (chase_locked, Some ''wrong'') \<and>
   error (settle_now example_env (handlePasswordSubmit
       ((settle_now example_env (handleFileChange [chase_locked] initial_state))
          \<lparr>password := ''wrong''\<rparr>))) =
     ''This PDF is password protected. Please enter the correct password below.''\<close>
  using no_password_given_mentions incorrect_password_mentions
  by (simp add: chase_locked_first chase_locked_wrong state_eval PASSWORD_PROMPT_def)

subsection \<open>C10: errors are classified by their message\<close>

text \<open>
  C10 says that an error thrown anywhere in the pipeline whose message contains
  \<^verbatim>\<open>password\<close>, in any case of the letters, leads to the password prompt with the file
  kept, and that every other error leads to Failed with the error's message. The second
  half needs one more case: an error with an empty message, or with none, is shown as
  \<^verbatim>\<open>Failed to parse PDF\<close>. What holds (C10 as amended): the first half as it is, for
  the extractor, the model call and the parser alike; every other error leads to Failed
  with its message when it has a non-empty one and with \<^verbatim>\<open>Failed to parse PDF\<close>
  otherwise.
\<close>

theorem catch_classifies_by_message:
  assumes "pipeline e f pw = Inl err"
  shows "parsePDF e f pw st =
           (if mentions_password err
            then st\<lparr>parsing := False, result := JNull, needsPassword := True,
                    pendingFile := Some f, error := PASSWORD_PROMPT\<rparr>
            else st\<lparr>parsing := False, result := JNull, needsPassword := False,
                    error := (case message err of
                                None \<Rightarrow> ''Failed to parse PDF''
                              | Some m \<Rightarrow> if m = [] then ''Failed to parse PDF'' else m)\<rparr>)"
  using assms by (simp add: parsePDF_def parsePDF_settle_def parsePDF_begin_def catch_clause_def)

text \<open>
  The amended C10 on an error of the model endpoint that speaks of a password, and on a
  file the library cannot read.
\<close>

theorem catch_classifies_by_message_witness:
  "parsePDF example_env other_open None initial_state =
     initial_state\<lparr>needsPassword := True, pendingFile := Some other_open,
                   error := PASSWORD_PROMPT\<rparr> \<and>
   parsePDF example_env corrupt_file None initial_state =
     initial_state\<lparr>error := ''Invalid PDF structure.''\<rparr>"
  using catch_classifies_by_message [OF other_pipeline, of initial_state]
    catch_classifies_by_message [OF corrupt_pipeline, of initial_state]
    expired_mentions invalid_structure_not
  by (simp add: initial_state_def)

text \<open>
  C10 as it is written fails on an error with an empty message: the error shown is not
  that message.
\<close>

theorem empty_message_counterexample:
  "pipeline example_env silent_broken None = Inl (newError []) \<and>
   message (newError []) = Some [] \<and>
   error (settle_now example_env (handleFileChange [silent_broken] initial_state)) =
     ''Failed to parse PDF''"
  by (simp add: silent_pipeline state_eval password_eval)

end
